theory Spec2Isabelle
  imports Complex_Main
begin

section \<open>Student dashboard: data model\<close>

text \<open>
  The page \<^verbatim>\<open>client/src/pages/course/student/dashboard.tsx\<close> works on values fetched
  from the course and user services. Each interface becomes a record. A field that the
  TypeScript declares nullable is an \<open>option\<close>, with \<open>None\<close> for \<^verbatim>\<open>null\<close>.
  Field names carry a prefix where two interfaces use the same name (\<^verbatim>\<open>id\<close>,
  \<^verbatim>\<open>name\<close>, \<^verbatim>\<open>type\<close>).
\<close>

record CourseTask =
  task_id :: int
  task_name :: string
  task_type :: string
  maxScore :: "rat option"
  scoreWeight :: rat
  studentStartDate :: "string option"
  studentEndDate :: "string option"
  descriptionUrl :: "string option"

record EventDescriptor =
  event_type :: string
  event_name :: string
  event_descriptionUrl :: "string option"

record CourseEvent =
  event_id :: int
  dateTime :: string
  event :: EventDescriptor

text \<open>The constant table \<^verbatim>\<open>TaskTypes\<close>.\<close>

definition TaskTypes_deadline :: string where
  "TaskTypes_deadline = ''deadline''"

definition TaskTypes_test :: string where
  "TaskTypes_test = ''test''"

definition TaskTypes_newtask :: string where
  "TaskTypes_newtask = ''newtask''"

definition TaskTypes_lecture :: string where
  "TaskTypes_lecture = ''lecture''"

section \<open>Event Deriver\<close>

text \<open>
  \<^verbatim>\<open>x || ''\<close> on a nullable string: \<^verbatim>\<open>null\<close> and the empty string are both falsy,
  so both give the empty string.
\<close>

definition or_empty :: "string option \<Rightarrow> string" where
  "or_empty x = (case x of None \<Rightarrow> [] | Some s \<Rightarrow> s)"

definition createCourseEventFromTask :: "CourseTask \<Rightarrow> string \<Rightarrow> CourseEvent" where
  "createCourseEventFromTask task type =
     \<lparr> event_id = task_id task,
       dateTime = or_empty (if type = TaskTypes_deadline then studentEndDate task
                            else studentStartDate task),
       event = \<lparr> event_type = type,
                 event_name = task_name task,
                 event_descriptionUrl = descriptionUrl task \<rparr> \<rparr>"

text \<open>
  The body of the reducer in \<^verbatim>\<open>tasksToEvents\<close>: \<^verbatim>\<open>acc.push\<close> appends at the end of
  the accumulator, once or twice, and the accumulator is returned.
\<close>

definition tasksToEvents_step :: "CourseEvent list \<Rightarrow> CourseTask \<Rightarrow> CourseEvent list" where
  "tasksToEvents_step acc task =
     (let acc1 = (if task_type task \<noteq> TaskTypes_test
                  then acc @ [createCourseEventFromTask task (task_type task)]
                  else acc)
      in acc1 @ [createCourseEventFromTask task
                   (if task_type task = TaskTypes_test then TaskTypes_test
                    else TaskTypes_deadline)])"

definition tasksToEvents :: "CourseTask list \<Rightarrow> CourseEvent list" where
  "tasksToEvents tasks = foldl tasksToEvents_step [] tasks"

text \<open>The events one task contributes, read off a one-element task list.\<close>

definition task_events :: "CourseTask \<Rightarrow> CourseEvent list" where
  "task_events task = tasksToEvents [task]"

text \<open>
  The tasks of the two scenarios, with the fields the scenarios leave open fixed here,
  and a task of type \<^verbatim>\<open>lecture\<close>.
\<close>

definition deadline_task :: CourseTask where
  "deadline_task =
     \<lparr> task_id = 1, task_name = ''Deadline'', task_type = ''deadline'',
       maxScore = Some 100, scoreWeight = 1,
       studentStartDate = Some ''2024-01-01'', studentEndDate = Some ''2024-01-10'',
       descriptionUrl = None \<rparr>"

definition test_task :: CourseTask where
  "test_task =
     \<lparr> task_id = 2, task_name = ''Test'', task_type = ''test'',
       maxScore = Some 100, scoreWeight = 1,
       studentStartDate = Some ''2024-02-01'', studentEndDate = Some ''2024-02-05'',
       descriptionUrl = None \<rparr>"

definition lecture_task :: CourseTask where
  "lecture_task =
     \<lparr> task_id = 3, task_name = ''Lecture'', task_type = ''lecture'',
       maxScore = None, scoreWeight = 1,
       studentStartDate = Some ''2024-03-01'', studentEndDate = Some ''2024-03-08'',
       descriptionUrl = Some ''https://example.org/lecture'' \<rparr>"

section \<open>The date library and the built-in sort\<close>

text \<open>
  The page uses the date library \<^verbatim>\<open>moment\<close> and the built-ins
  \<^verbatim>\<open>Array.prototype.sort\<close> and \<^verbatim>\<open>String.prototype.localeCompare\<close>. They are not
  code of the repository; the parts the page calls are modelled here, or taken as
  parameters.

  A moment is \<open>None\<close> when invalid, else \<open>Some t\<close> with \<open>t\<close> the milliseconds on the
  local wall clock (days of constant length: no change of the UTC offset). Turning a
  non-empty string into a moment is left to a parameter \<open>parse\<close> of every function
  that needs it; \<^verbatim>\<open>moment(null)\<close> and \<^verbatim>\<open>moment('')\<close> are invalid whatever the parser.
\<close>

type_synonym moment_value = "int option"

type_synonym date_parser = "string \<Rightarrow> int option"

definition ms_per_day :: int where
  "ms_per_day = 86400000"

definition startOf_day :: "int \<Rightarrow> int" where
  "startOf_day t = t - t mod ms_per_day"

definition endOf_day :: "int \<Rightarrow> int" where
  "endOf_day t = startOf_day t + ms_per_day - 1"

definition moment :: "date_parser \<Rightarrow> string option \<Rightarrow> moment_value" where
  "moment parse input =
     (case input of
        None \<Rightarrow> None
      | Some s \<Rightarrow> if s = [] then None else parse s)"

text \<open>\<^verbatim>\<open>a.isAfter(b)\<close> with no unit: both valid and \<open>a\<close> strictly later.\<close>

definition isAfter :: "moment_value \<Rightarrow> moment_value \<Rightarrow> bool" where
  "isAfter this input =
     (case this of
        None \<Rightarrow> False
      | Some a \<Rightarrow> (case input of None \<Rightarrow> False | Some b \<Rightarrow> b < a))"

text \<open>
  \<^verbatim>\<open>a.isAfter(b, 'date')\<close>: both valid and \<open>b\<close> strictly before the start of the day of
  \<open>a\<close>. \<^verbatim>\<open>a.isBefore(b, 'date')\<close>: both valid and the end of the day of \<open>a\<close> strictly
  before \<open>b\<close>.
\<close>

definition isAfter_date :: "moment_value \<Rightarrow> moment_value \<Rightarrow> bool" where
  "isAfter_date this input =
     (case this of
        None \<Rightarrow> False
      | Some a \<Rightarrow> (case input of None \<Rightarrow> False | Some b \<Rightarrow> b < startOf_day a))"

definition isBefore_date :: "moment_value \<Rightarrow> moment_value \<Rightarrow> bool" where
  "isBefore_date this input =
     (case this of
        None \<Rightarrow> False
      | Some a \<Rightarrow> (case input of None \<Rightarrow> False | Some b \<Rightarrow> endOf_day a < b))"

text \<open>
  \<^verbatim>\<open>String.prototype.localeCompare\<close> compares two strings in the collation order
  of the platform's locale and returns a negative number, zero or a positive number.
  That order is not the order of the character codes: it puts \<^verbatim>\<open>a\<close> before
  \<^verbatim>\<open>B\<close> and \<^verbatim>\<open>-\<close> before \<^verbatim>\<open>+\<close>. The comparison is a parameter
  \<open>localeCompare\<close> of every function that sorts with it.
\<close>

type_synonym collation = "string \<Rightarrow> string \<Rightarrow> int"

text \<open>
  \<^verbatim>\<open>Array.prototype.sort\<close> with a comparator is a stable sort: elements that compare
  equal keep their order, and for a comparator that is a total preorder every stable
  sort gives the same array. Here it is an insertion sort; the array sorted by the page
  is the fresh one \<^verbatim>\<open>concat\<close> returns, so nothing else sees the mutation.
\<close>

fun insert_sorted :: "('a \<Rightarrow> 'a \<Rightarrow> int) \<Rightarrow> 'a \<Rightarrow> 'a list \<Rightarrow> 'a list" where
  "insert_sorted cmp x [] = [x]"
| "insert_sorted cmp x (y # ys) =
     (if cmp x y \<le> 0 then x # y # ys else y # insert_sorted cmp x ys)"

definition Array_sort :: "('a \<Rightarrow> 'a \<Rightarrow> int) \<Rightarrow> 'a list \<Rightarrow> 'a list" where
  "Array_sort cmp xs = foldr (insert_sorted cmp) xs []"

section \<open>Event Merger\<close>

text \<open>
  The value of \<^verbatim>\<open>nextEvents\<close> in the fetch callback. \<open>now\<close> is the current time,
  \<^verbatim>\<open>moment()\<close>. The trailing \<^verbatim>\<open>?? []\<close> never applies: \<^verbatim>\<open>filter\<close> returns an array.
\<close>

definition nextEvents ::
  "collation \<Rightarrow> date_parser \<Rightarrow> int \<Rightarrow> CourseEvent list \<Rightarrow> CourseTask list
     \<Rightarrow> CourseEvent list" where
  "nextEvents localeCompare parse now courseEvents courseTasks =
     (let startOfToday = Some (startOf_day now)
      in filter (\<lambda>event. isAfter (moment parse (Some (dateTime event))) startOfToday)
           (Array_sort (\<lambda>a b. localeCompare (dateTime a) (dateTime b))
              (courseEvents @ tasksToEvents courseTasks)))"



section \<open>Task Classifier\<close>

datatype error = TypeError | RequestFailed

text \<open>
  A value that may be \<^verbatim>\<open>undefined\<close>, \<^verbatim>\<open>null\<close> or present: the enriched tasks
  distinguish the three.
\<close>

datatype 'a jsval = Undefined | Null | Val 'a

definition nullable :: "'a option \<Rightarrow> 'a jsval" where
  "nullable x = (case x of None \<Rightarrow> Null | Some v \<Rightarrow> Val v)"

record TaskResult =
  courseTaskId :: int
  result_score :: rat

record StudentTasksDetail =
  detail_name :: string
  detail_maxScore :: rat
  detail_scoreWeight :: rat
  descriptionUri :: "string option"
  taskGithubPrUris :: "string option"
  detail_score :: "rat option"
  detail_comment :: "string option"

text \<open>
  The student summary. Every field is an \<open>option\<close>, \<open>None\<close> standing for a property
  that is absent: the initial state of the page is the empty object \<^verbatim>\<open>{}\<close>.
\<close>

record StudentSummary =
  isActive :: "bool option"
  totalScore :: "rat option"
  rank :: "int option"
  repository :: "string option"
  mentor :: "string option"
  results :: "TaskResult list option"

definition empty_summary :: StudentSummary where
  "empty_summary =
     \<lparr> isActive = None, totalScore = None, rank = None, repository = None,
       mentor = None, results = None \<rparr>"

text \<open>
  \<^verbatim>\<open>results.find(...)\<close>: a member access on \<^verbatim>\<open>undefined\<close> throws a TypeError;
  otherwise the first matching result, or \<^verbatim>\<open>undefined\<close> (\<open>None\<close>).
\<close>

definition checkTaskResults :: "TaskResult list option \<Rightarrow> int \<Rightarrow> error + TaskResult option" where
  "checkTaskResults rs taskId =
     (case rs of
        None \<Rightarrow> Inl TypeError
      | Some xs \<Rightarrow> Inr (find (\<lambda>task. courseTaskId task = taskId) xs))"

text \<open>A found result is an object, hence truthy; \<^verbatim>\<open>undefined\<close> is falsy.\<close>

definition truthy :: "TaskResult option \<Rightarrow> bool" where
  "truthy r = (r \<noteq> None)"

text \<open>\<^verbatim>\<open>Array.prototype.filter\<close> with a predicate that may throw: the first throw ends it.\<close>

fun filterE :: "('a \<Rightarrow> error + bool) \<Rightarrow> 'a list \<Rightarrow> error + 'a list" where
  "filterE p [] = Inr []"
| "filterE p (x # xs) =
     (case p x of
        Inl e \<Rightarrow> Inl e
      | Inr b \<Rightarrow> (case filterE p xs of
                     Inl e \<Rightarrow> Inl e
                   | Inr ys \<Rightarrow> Inr (if b then x # ys else ys)))"

text \<open>A task with the three fields the classifier adds to it (\<^verbatim>\<open>{ ...task, ... }\<close>).\<close>

record TaskStat =
  base_task :: CourseTask
  comment :: "string jsval"
  githubPrUri :: "string jsval"
  score :: "rat jsval"

definition completed_stat :: "StudentTasksDetail list \<Rightarrow> CourseTask \<Rightarrow> TaskStat" where
  "completed_stat tasksDetail t =
     (case find (\<lambda>taskDetail. detail_name taskDetail = task_name t) tasksDetail of
        None \<Rightarrow> \<lparr> base_task = t, comment = Undefined, githubPrUri = Undefined, score = Undefined \<rparr>
      | Some d \<Rightarrow> \<lparr> base_task = t, comment = nullable (detail_comment d),
                    githubPrUri = nullable (taskGithubPrUris d),
                    score = nullable (detail_score d) \<rparr>)"

definition tasksCompleted ::
  "StudentSummary \<Rightarrow> StudentTasksDetail list \<Rightarrow> CourseTask list \<Rightarrow> error + TaskStat list" where
  "tasksCompleted studentSummary tasksDetail courseTasks =
     (case filterE (\<lambda>t. case checkTaskResults (results studentSummary) (task_id t) of
                           Inl e \<Rightarrow> Inl e
                         | Inr r \<Rightarrow> Inr (truthy r)) courseTasks of
        Inl e \<Rightarrow> Inl e
      | Inr ts \<Rightarrow> Inr (map (completed_stat tasksDetail) ts))"

text \<open>
  \<open>currentDate\<close> is the string \<^verbatim>\<open>moment().format('YYYY MM DD')\<close>, which
  \<^verbatim>\<open>isBefore\<close> and \<^verbatim>\<open>isAfter\<close> turn back into a moment. The conjunction
  \<^verbatim>\<open>&&\<close> evaluates \<^verbatim>\<open>checkTaskResults\<close> only when the date test holds.
\<close>

definition tasksNotDone ::
  "date_parser \<Rightarrow> string \<Rightarrow> StudentSummary \<Rightarrow> CourseTask list \<Rightarrow> error + TaskStat list" where
  "tasksNotDone parse currentDate studentSummary courseTasks =
     (case filterE (\<lambda>t. if isBefore_date (moment parse (studentEndDate t))
                                          (moment parse (Some currentDate))
                         then (case checkTaskResults (results studentSummary) (task_id t) of
                                 Inl e \<Rightarrow> Inl e
                               | Inr r \<Rightarrow> Inr (\<not> truthy r))
                         else Inr False) courseTasks of
        Inl e \<Rightarrow> Inl e
      | Inr ts \<Rightarrow> Inr (map (\<lambda>t. \<lparr> base_task = t, comment = Null, githubPrUri = Null,
                                   score = Val 0 \<rparr>) ts))"

definition tasksFuture ::
  "date_parser \<Rightarrow> string \<Rightarrow> StudentSummary \<Rightarrow> CourseTask list \<Rightarrow> error + TaskStat list" where
  "tasksFuture parse currentDate studentSummary courseTasks =
     (case filterE (\<lambda>t. if isAfter_date (moment parse (studentEndDate t))
                                         (moment parse (Some currentDate))
                         then (case checkTaskResults (results studentSummary) (task_id t) of
                                 Inl e \<Rightarrow> Inl e
                               | Inr r \<Rightarrow> Inr (\<not> truthy r))
                         else Inr False) courseTasks of
        Inl e \<Rightarrow> Inl e
      | Inr ts \<Rightarrow> Inr (map (\<lambda>t. \<lparr> base_task = t, comment = Null, githubPrUri = Null,
                                   score = Null \<rparr>) ts))"

record TaskStatistics =
  completed :: "TaskStat list"
  notDone :: "TaskStat list"
  future :: "TaskStat list"

text \<open>The three buckets are evaluated in this order; the first throw ends the render.\<close>

definition taskStatistics ::
  "date_parser \<Rightarrow> string \<Rightarrow> StudentSummary \<Rightarrow> StudentTasksDetail list \<Rightarrow> CourseTask list
     \<Rightarrow> error + TaskStatistics" where
  "taskStatistics parse currentDate studentSummary tasksDetail courseTasks =
     (case tasksCompleted studentSummary tasksDetail courseTasks of
        Inl e \<Rightarrow> Inl e
      | Inr c \<Rightarrow>
          (case tasksNotDone parse currentDate studentSummary courseTasks of
             Inl e \<Rightarrow> Inl e
           | Inr n \<Rightarrow>
               (case tasksFuture parse currentDate studentSummary courseTasks of
                  Inl e \<Rightarrow> Inl e
                | Inr f \<Rightarrow> Inr \<lparr> completed = c, notDone = n, future = f \<rparr>)))"

text \<open>A task has a matching result when some result carries its id.\<close>

definition has_result :: "TaskResult list \<Rightarrow> CourseTask \<Rightarrow> bool" where
  "has_result rs t = (\<exists>r \<in> set rs. courseTaskId r = task_id t)"

text \<open>A task appears in a bucket when one of the bucket's entries is built from it.\<close>

definition in_bucket :: "CourseTask \<Rightarrow> TaskStat list \<Rightarrow> bool" where
  "in_bucket t bucket = (t \<in> base_task ` set bucket)"

section \<open>Display-count preference\<close>

text \<open>
  A JavaScript number, as far as the page needs one. The conversion of a string to a
  number (the built-in \<^verbatim>\<open>Number\<close> applied to a string) is a parameter
  \<open>StringToNumber\<close>. Browser storage is a map from keys to strings; \<^verbatim>\<open>getItem\<close>
  gives \<^verbatim>\<open>null\<close> (\<open>None\<close>) for an absent key.
\<close>

datatype jsnumber = NaN | Finite rat | PosInfinity | NegInfinity

definition preference_key :: string where
  "preference_key = ''showCountEventsOnStudentsDashboard''"

definition getItem :: "(string \<rightharpoonup> string) \<Rightarrow> string \<Rightarrow> string option" where
  "getItem localStorage key = localStorage key"

text \<open>Truthiness of a nullable string: \<^verbatim>\<open>null\<close> and the empty string are falsy.\<close>

definition truthy_string :: "string option \<Rightarrow> bool" where
  "truthy_string x = (case x of None \<Rightarrow> False | Some s \<Rightarrow> s \<noteq> [])"

text \<open>\<^verbatim>\<open>Number(x)\<close> for \<open>x\<close> a nullable string (\<open>Inl\<close>) or a number (\<open>Inr\<close>).\<close>

definition Number_of :: "(string \<Rightarrow> jsnumber) \<Rightarrow> string option + jsnumber \<Rightarrow> jsnumber" where
  "Number_of StringToNumber x =
     (case x of
        Inl None \<Rightarrow> Finite 0
      | Inl (Some s) \<Rightarrow> StringToNumber s
      | Inr n \<Rightarrow> n)"

definition showCountEventsOnStudentsDashboard ::
  "(string \<Rightarrow> jsnumber) \<Rightarrow> (string \<rightharpoonup> string) \<Rightarrow> jsnumber" where
  "showCountEventsOnStudentsDashboard StringToNumber localStorage =
     Number_of StringToNumber
       (if truthy_string (getItem localStorage preference_key)
        then Inl (getItem localStorage preference_key)
        else Inr (Finite 1))"

section \<open>Remote Data Fetcher\<close>

record StudentStats =
  courseId :: int
  stats_tasks :: "StudentTasksDetail list"

record ProfileInfo =
  studentStats :: "StudentStats list option"

text \<open>
  The view state of the page, with the log of the notifications shown by
  \<^verbatim>\<open>message.error\<close>.
\<close>

record PageState =
  st_studentSummary :: StudentSummary
  st_courseTasks :: "CourseTask list"
  st_tasksDetail :: "StudentTasksDetail list"
  st_nextEvents :: "CourseEvent list"
  st_countEvents :: jsnumber
  st_loading :: bool
  st_messages :: "string list"

definition initial_state :: "(string \<Rightarrow> jsnumber) \<Rightarrow> (string \<rightharpoonup> string) \<Rightarrow> PageState" where
  "initial_state StringToNumber localStorage =
     \<lparr> st_studentSummary = empty_summary,
       st_courseTasks = [],
       st_tasksDetail = [],
       st_nextEvents = [],
       st_countEvents = showCountEventsOnStudentsDashboard StringToNumber localStorage,
       st_loading = False,
       st_messages = [] \<rparr>"

text \<open>The effects of the fetch callback, in the order it performs them.\<close>

datatype action =
    SetLoading bool
  | SetNextEvent "CourseEvent list"
  | SetStudentSummary StudentSummary
  | SetCourseTasks "CourseTask list"
  | SetTasksDetail "StudentTasksDetail list"
  | MessageError string

fun apply_action :: "PageState \<Rightarrow> action \<Rightarrow> PageState" where
  "apply_action st (SetLoading b) = st\<lparr>st_loading := b\<rparr>"
| "apply_action st (SetNextEvent es) = st\<lparr>st_nextEvents := es\<rparr>"
| "apply_action st (SetStudentSummary s) = st\<lparr>st_studentSummary := s\<rparr>"
| "apply_action st (SetCourseTasks ts) = st\<lparr>st_courseTasks := ts\<rparr>"
| "apply_action st (SetTasksDetail ds) = st\<lparr>st_tasksDetail := ds\<rparr>"
| "apply_action st (MessageError m) = st\<lparr>st_messages := st_messages st @ [m]\<rparr>"

definition run_actions :: "PageState \<Rightarrow> action list \<Rightarrow> PageState" where
  "run_actions st acts = foldl apply_action st acts"

text \<open>
  \<^verbatim>\<open>Promise.all\<close> over the four requests, each settled as rejected (\<open>Inl\<close>) or
  fulfilled (\<open>Inr\<close>): fulfilled with all four values, or rejected when one is. The catch
  clause binds no reason, so which rejection is reported plays no role.
\<close>

definition Promise_all ::
  "error + 'a \<Rightarrow> error + 'b \<Rightarrow> error + 'c \<Rightarrow> error + 'd \<Rightarrow> error + 'a \<times> 'b \<times> 'c \<times> 'd" where
  "Promise_all r1 r2 r3 r4 =
     (case r1 of
        Inl e \<Rightarrow> Inl e
      | Inr a \<Rightarrow>
          (case r2 of
             Inl e \<Rightarrow> Inl e
           | Inr b \<Rightarrow>
               (case r3 of
                  Inl e \<Rightarrow> Inl e
                | Inr c \<Rightarrow> (case r4 of Inl e \<Rightarrow> Inl e | Inr d \<Rightarrow> Inr (a, b, c, d)))))"

definition tasksDetailCurrentCourse :: "int \<Rightarrow> ProfileInfo \<Rightarrow> StudentTasksDetail list" where
  "tasksDetailCurrentCourse course_id statisticsCourses =
     (case studentStats statisticsCourses of
        None \<Rightarrow> []
      | Some cs \<Rightarrow>
          (case find (\<lambda>course. courseId course = course_id) cs of
             None \<Rightarrow> []
           | Some c \<Rightarrow> stats_tasks c))"

definition error_text :: string where
  "error_text = ''An error occurred. Please try later.''"

text \<open>
  The callback of \<^verbatim>\<open>useAsync\<close>: \<^verbatim>\<open>setLoading(true)\<close>, the awaited batch, then either
  the four setters or the catch clause, and \<^verbatim>\<open>setLoading(false)\<close> in the finally
  clause.
\<close>

definition fetch_callback ::
  "collation \<Rightarrow> date_parser \<Rightarrow> int \<Rightarrow> int \<Rightarrow> error + StudentSummary
     \<Rightarrow> error + CourseTask list \<Rightarrow> error + ProfileInfo \<Rightarrow> error + CourseEvent list
     \<Rightarrow> action list" where
  "fetch_callback localeCompare parse now course_id r1 r2 r3 r4 =
     [SetLoading True] @
     (case Promise_all r1 r2 r3 r4 of
        Inl e \<Rightarrow> [MessageError error_text]
      | Inr (studentSummary, courseTasks, statisticsCourses, courseEvents) \<Rightarrow>
          [SetNextEvent (nextEvents localeCompare parse now courseEvents courseTasks),
           SetStudentSummary studentSummary,
           SetCourseTasks courseTasks,
           SetTasksDetail (tasksDetailCurrentCourse course_id statisticsCourses)]) @
     [SetLoading False]"

definition rejected :: "error + 'a \<Rightarrow> bool" where
  "rejected r = (case r of Inl e \<Rightarrow> True | Inr v \<Rightarrow> False)"

definition is_MessageError :: "action \<Rightarrow> bool" where
  "is_MessageError a = (case a of MessageError m \<Rightarrow> True | _ \<Rightarrow> False)"

section \<open>Concrete instances of the parameters\<close>

text \<open>
  To evaluate the page on concrete inputs the parameters need values. \<open>parse_date\<close>
  reads a date written \<^verbatim>\<open>YYYY-MM-DD\<close> or \<^verbatim>\<open>YYYY MM DD\<close> as the midnight that starts
  the day, by the civil-calendar day count; every other string is invalid.
  \<open>parse_timestamp\<close> reads in addition a timestamp written
  \<^verbatim>\<open>YYYY-MM-DDTHH:MM:SS+HH:MM\<close> (or with \<^verbatim>\<open>-HH:MM\<close>), for a page whose local time
  is UTC. \<open>StringToNumber_decimal\<close> converts the empty string to 0 and a string of
  decimal digits to its value; every other string is \<open>NaN\<close> in this instance.
  \<open>root_collation\<close> compares two strings character by character in the order the
  default collation gives the characters of timestamps: the space, then \<^verbatim>\<open>-\<close>,
  \<^verbatim>\<open>:\<close>, \<^verbatim>\<open>.\<close> and \<^verbatim>\<open>+\<close>, then the digits, then every other character by its
  code. It is an instance for timestamps only: the collation of letters, where case
  counts after the letter, is not reproduced, and no input here depends on it.
\<close>

definition digit_val :: "char \<Rightarrow> nat option" where
  "digit_val c =
     (let n = (of_char c :: nat) in if 48 \<le> n \<and> n \<le> 57 then Some (n - 48) else None)"

fun digits_val :: "nat \<Rightarrow> string \<Rightarrow> nat option" where
  "digits_val acc [] = Some acc"
| "digits_val acc (c # cs) =
     (case digit_val c of None \<Rightarrow> None | Some d \<Rightarrow> digits_val (10 * acc + d) cs)"

definition days_from_civil :: "int \<Rightarrow> int \<Rightarrow> int \<Rightarrow> int" where
  "days_from_civil y m d =
     (let y' = (if m \<le> 2 then y - 1 else y);
          era = y' div 400;
          yoe = y' - era * 400;
          doy = (153 * (if 2 < m then m - 3 else m + 9) + 2) div 5 + d - 1;
          doe = yoe * 365 + yoe div 4 - yoe div 100 + doy
      in era * 146097 + doe - 719468)"

definition parse_date :: date_parser where
  "parse_date s =
     (if length s = 10 \<and> (s ! 4 = CHR ''-'' \<and> s ! 7 = CHR ''-'' \<or> s ! 4 = CHR '' '' \<and> s ! 7 = CHR '' '')
      then (case digits_val 0 (take 4 s) of
              None \<Rightarrow> None
            | Some y \<Rightarrow>
                (case digits_val 0 (take 2 (drop 5 s)) of
                   None \<Rightarrow> None
                 | Some m \<Rightarrow>
                     (case digits_val 0 (drop 8 s) of
                        None \<Rightarrow> None
                      | Some d \<Rightarrow>
                          if 1 \<le> m \<and> m \<le> 12 \<and> 1 \<le> d \<and> d \<le> 31
                          then Some (days_from_civil (int y) (int m) (int d) * ms_per_day)
                          else None)))
      else None)"


fun compare_weights :: "nat list \<Rightarrow> nat list \<Rightarrow> int" where
  "compare_weights [] [] = 0"
| "compare_weights [] (y # ys) = - 1"
| "compare_weights (x # xs) [] = 1"
| "compare_weights (x # xs) (y # ys) =
     (if x < y then - 1 else if y < x then 1 else compare_weights xs ys)"

definition collation_weight :: "char \<Rightarrow> nat" where
  "collation_weight c =
     (if c = CHR '' '' then 0
      else if c = CHR ''-'' then 1
      else if c = CHR '':'' then 2
      else if c = CHR ''.'' then 3
      else if c = CHR ''+'' then 4
      else case digit_val c of Some d \<Rightarrow> 10 + d | None \<Rightarrow> 100 + of_char c)"

definition root_collation :: collation where
  "root_collation a b = compare_weights (map collation_weight a) (map collation_weight b)"

definition StringToNumber_decimal :: "string \<Rightarrow> jsnumber" where
  "StringToNumber_decimal s =
     (case digits_val 0 s of None \<Rightarrow> NaN | Some n \<Rightarrow> Finite (of_nat n))"

text \<open>The type and the timestamp of an event, the two fields the scenarios give.\<close>

definition event_summary :: "CourseEvent \<Rightarrow> string \<times> string" where
  "event_summary e = (event_type (event e), dateTime e)"

section \<open>Sample inputs\<close>

definition undated_task :: CourseTask where
  "undated_task =
     \<lparr> task_id = 4, task_name = ''Undated'', task_type = ''newtask'',
       maxScore = Some 50, scoreWeight = 1,
       studentStartDate = None, studentEndDate = None,
       descriptionUrl = None \<rparr>"

definition sample_summary :: StudentSummary where
  "sample_summary =
     \<lparr> isActive = Some True, totalScore = Some 80, rank = Some 5, repository = None,
       mentor = None, results = Some [\<lparr> courseTaskId = 2, result_score = 80 \<rparr>] \<rparr>"

definition sample_details :: "StudentTasksDetail list" where
  "sample_details =
     [\<lparr> detail_name = ''Test'', detail_maxScore = 100, detail_scoreWeight = 1,
        descriptionUri = None, taskGithubPrUris = None, detail_score = Some 80,
        detail_comment = Some ''ok'' \<rparr>]"


definition sample_events :: "CourseEvent list" where
  "sample_events =
     [\<lparr> event_id = 7, dateTime = ''2024-02-20'',
        event = \<lparr> event_type = ''lecture'', event_name = ''Talk'', event_descriptionUrl = None \<rparr> \<rparr>,
      \<lparr> event_id = 8, dateTime = ''2024-01-15'',
        event = \<lparr> event_type = ''lecture'', event_name = ''Today'', event_descriptionUrl = None \<rparr> \<rparr>]"

section \<open>Event Deriver: properties\<close>

lemma tasksToEvents_step_append:
  "tasksToEvents_step acc task = acc @ tasksToEvents_step [] task"
  by (simp add: tasksToEvents_step_def Let_def)

lemma foldl_tasksToEvents_step:
  "foldl tasksToEvents_step acc tasks = acc @ concat (map (tasksToEvents_step []) tasks)"
proof (induction tasks arbitrary: acc)
  case Nil
  show ?case by simp
next
  case (Cons t ts)
  have "foldl tasksToEvents_step acc (t # ts) = foldl tasksToEvents_step (tasksToEvents_step acc t) ts"
    by simp
  also have "\<dots> = tasksToEvents_step acc t @ concat (map (tasksToEvents_step []) ts)"
    by (rule Cons.IH)
  also have "\<dots> = acc @ tasksToEvents_step [] t @ concat (map (tasksToEvents_step []) ts)"
    using tasksToEvents_step_append [of acc t] by simp
  finally show ?case by simp
qed

lemma task_events_step: "task_events task = tasksToEvents_step [] task"
  by (simp add: task_events_def tasksToEvents_def)

lemma tasksToEvents_concat: "tasksToEvents tasks = concat (map task_events tasks)"
proof -
  have "task_events = tasksToEvents_step []"
    by (rule ext) (rule task_events_step)
  then show ?thesis
    by (simp add: tasksToEvents_def foldl_tasksToEvents_step)
qed

lemma task_events_test:
  "task_type task = TaskTypes_test \<Longrightarrow>
     task_events task = [createCourseEventFromTask task TaskTypes_test]"
  by (simp add: task_events_step tasksToEvents_step_def)

lemma task_events_other:
  "task_type task \<noteq> TaskTypes_test \<Longrightarrow>
     task_events task = [createCourseEventFromTask task (task_type task),
                         createCourseEventFromTask task TaskTypes_deadline]"
  by (simp add: task_events_step tasksToEvents_step_def)

lemma task_events_carry:
  "e \<in> set (task_events t) \<Longrightarrow>
     event_id e = task_id t \<and> event_name (event e) = task_name t \<and>
     event_descriptionUrl (event e) = descriptionUrl t"
  by (cases "task_type t = TaskTypes_test")
     (auto simp: task_events_test task_events_other createCourseEventFromTask_def)

lemma length_task_events:
  "length (task_events t) = (if task_type t = TaskTypes_test then 1 else 2)"
  by (simp add: task_events_test task_events_other)

lemma length_concat_task_events:
  "length (concat (map task_events tasks)) =
     length (filter (\<lambda>t. task_type t = TaskTypes_test) tasks) +
     2 * length (filter (\<lambda>t. task_type t \<noteq> TaskTypes_test) tasks)"
  by (induction tasks) (simp_all add: length_task_events)

text \<open>
  Claim C2, as stated, at its scenario: the task of type \<^verbatim>\<open>deadline\<close> with start
  2024-01-01 and end 2024-01-10 does not give a first event at the start date. Both
  events are built with the type \<^verbatim>\<open>deadline\<close>, and \<open>createCourseEventFromTask\<close> gives
  an event of that type the end date.
\<close>

theorem C2_deadline_scenario_counterexample:
  "map event_summary (tasksToEvents [deadline_task])
     = [(''deadline'', ''2024-01-10''), (''deadline'', ''2024-01-10'')] \<and>
   map event_summary (tasksToEvents [deadline_task])
     \<noteq> [(''deadline'', ''2024-01-01''), (''deadline'', ''2024-01-10'')]"
  by (simp add: tasksToEvents_def tasksToEvents_step_def deadline_task_def
      createCourseEventFromTask_def TaskTypes_test_def TaskTypes_deadline_def or_empty_def
      event_summary_def)

text \<open>
  Claim C2, amended: a task whose type is not \<^verbatim>\<open>test\<close> gives exactly two events. The
  first has the task's own type; its timestamp is the task's student start date when the
  type is not \<^verbatim>\<open>deadline\<close>, and the student end date when it is (the empty string
  when the date is absent). The second has type \<^verbatim>\<open>deadline\<close> and the student end date.
\<close>

theorem C2_first_event:
  "task_type t \<noteq> TaskTypes_test \<Longrightarrow>
     length (tasksToEvents [t]) = 2 \<and>
     event_type (event (tasksToEvents [t] ! 0)) = task_type t \<and>
     dateTime (tasksToEvents [t] ! 0) =
       (if task_type t = TaskTypes_deadline
        then (case studentEndDate t of None \<Rightarrow> [] | Some s \<Rightarrow> s)
        else (case studentStartDate t of None \<Rightarrow> [] | Some s \<Rightarrow> s)) \<and>
     event_type (event (tasksToEvents [t] ! 1)) = TaskTypes_deadline \<and>
     dateTime (tasksToEvents [t] ! 1) = (case studentEndDate t of None \<Rightarrow> [] | Some s \<Rightarrow> s)"
  using task_events_other [of t]
  by (simp add: task_events_def createCourseEventFromTask_def or_empty_def)

theorem C2_first_event_witness:
  "task_type lecture_task \<noteq> TaskTypes_test \<and>
   length (tasksToEvents [lecture_task]) = 2 \<and>
   event_type (event (tasksToEvents [lecture_task] ! 0)) = ''lecture'' \<and>
   dateTime (tasksToEvents [lecture_task] ! 0) = ''2024-03-01'' \<and>
   event_type (event (tasksToEvents [lecture_task] ! 1)) = ''deadline'' \<and>
   dateTime (tasksToEvents [lecture_task] ! 1) = ''2024-03-08''"
proof -
  have h: "task_type lecture_task \<noteq> TaskTypes_test"
    by (simp add: lecture_task_def TaskTypes_test_def)
  have d: "task_type lecture_task \<noteq> TaskTypes_deadline"
    by (simp add: lecture_task_def TaskTypes_deadline_def)
  show ?thesis
    using h d C2_first_event [OF h]
    by (simp add: lecture_task_def TaskTypes_deadline_def)
qed

text \<open>
  Claim C3, as stated, at its scenario: the task of type \<^verbatim>\<open>test\<close> with start
  2024-02-01 and end 2024-02-05 does not give an event at 2024-02-05.
\<close>

theorem C3_test_scenario_counterexample:
  "map event_summary (tasksToEvents [test_task]) \<noteq> [(''test'', ''2024-02-05'')]"
  by (simp add: tasksToEvents_def tasksToEvents_step_def test_task_def
      createCourseEventFromTask_def TaskTypes_test_def TaskTypes_deadline_def or_empty_def
      event_summary_def)

text \<open>
  Claim C3, amended: a task of type \<^verbatim>\<open>test\<close> gives exactly one event, of type
  \<^verbatim>\<open>test\<close>, whose timestamp is the task's student start date (the empty string when
  absent); for the scenario task that is 2024-02-01.
\<close>

theorem C3_test_event:
  "task_type t = TaskTypes_test \<Longrightarrow>
     length (tasksToEvents [t]) = 1 \<and>
     event_type (event (tasksToEvents [t] ! 0)) = TaskTypes_test \<and>
     dateTime (tasksToEvents [t] ! 0) = (case studentStartDate t of None \<Rightarrow> [] | Some s \<Rightarrow> s)"
  using task_events_test [of t]
  by (simp add: task_events_def createCourseEventFromTask_def or_empty_def
      TaskTypes_test_def TaskTypes_deadline_def)

theorem C3_test_event_witness:
  "task_type test_task = TaskTypes_test \<and>
   map event_summary (tasksToEvents [test_task]) = [(''test'', ''2024-02-01'')]"
proof -
  have h: "task_type test_task = TaskTypes_test"
    by (simp add: test_task_def TaskTypes_test_def)
  have s: "studentStartDate test_task = Some ''2024-02-01''"
    by (simp add: test_task_def)
  from C3_test_event [OF h] obtain e where e: "tasksToEvents [test_task] = [e]"
    by (cases "tasksToEvents [test_task]") auto
  with C3_test_event [OF h] s have "event_summary e = (''test'', ''2024-02-01'')"
    by (simp add: event_summary_def TaskTypes_test_def)
  with e h show ?thesis by simp
qed

text \<open>
  Claim C4: the events of a task list are the events of its tasks, one task after the
  other in the order of the list; a task of type \<^verbatim>\<open>test\<close> contributes exactly one
  event and every other task exactly two, each carrying the id of its task.
\<close>

theorem C4_events_per_task:
  "tasksToEvents tasks = concat (map task_events tasks) \<and>
   (\<forall>t. length (task_events t) = (if task_type t = TaskTypes_test then 1 else 2)) \<and>
   (\<forall>t. \<forall>e \<in> set (task_events t). event_id e = task_id t) \<and>
   length (tasksToEvents tasks) =
     length (filter (\<lambda>t. task_type t = TaskTypes_test) tasks) +
     2 * length (filter (\<lambda>t. task_type t \<noteq> TaskTypes_test) tasks)"
  using task_events_carry
  by (simp add: tasksToEvents_concat length_task_events length_concat_task_events
      del: length_concat)

theorem C4_events_per_task_witness:
  "map event_id (tasksToEvents [lecture_task, test_task, deadline_task]) = [3, 3, 2, 1, 1]"
  using C4_events_per_task [of "[lecture_task, test_task, deadline_task]"]
  by (simp add: task_events_def tasksToEvents_def tasksToEvents_step_def
      lecture_task_def test_task_def deadline_task_def
      createCourseEventFromTask_def TaskTypes_test_def TaskTypes_deadline_def)

section \<open>Event Merger: properties\<close>



















section \<open>Task Classifier: properties\<close>

lemma filterE_total:
  "(\<And>x. x \<in> set xs \<Longrightarrow> p x = Inr (q x)) \<Longrightarrow> filterE p xs = Inr (filter q xs)"
  by (induction xs) simp_all

lemma filterE_throws:
  "(\<exists>e. filterE p xs = Inl e) \<longleftrightarrow> (\<exists>x \<in> set xs. \<exists>e. p x = Inl e)"
  by (induction xs) (auto split: sum.splits)

lemma filterE_TypeError:
  assumes "\<And>x. x \<in> set xs \<Longrightarrow> p x = (if q x then Inl TypeError else Inr False)"
  shows "filterE p xs = (if \<exists>x \<in> set xs. q x then Inl TypeError else Inr [])"
  using assms by (induction xs) (auto split: sum.splits)

lemma truthy_find: "truthy (find (\<lambda>r. courseTaskId r = task_id t) rs) \<longleftrightarrow> has_result rs t"
  by (auto simp: truthy_def has_result_def find_None_iff)

lemma tasksCompleted_results:
  assumes "results studentSummary = Some rs"
  shows "tasksCompleted studentSummary tasksDetail courseTasks =
           Inr (map (completed_stat tasksDetail) (filter (has_result rs) courseTasks))"
proof -
  have "filterE (\<lambda>t. case checkTaskResults (results studentSummary) (task_id t) of
                           Inl e \<Rightarrow> Inl e
                         | Inr r \<Rightarrow> Inr (truthy r)) courseTasks
        = Inr (filter (has_result rs) courseTasks)"
    by (rule filterE_total) (simp add: assms checkTaskResults_def truthy_find)
  then show ?thesis by (simp add: tasksCompleted_def)
qed

lemma tasksNotDone_results:
  assumes "results studentSummary = Some rs"
  shows "tasksNotDone parse currentDate studentSummary courseTasks =
           Inr (map (\<lambda>t. \<lparr> base_task = t, comment = Null, githubPrUri = Null, score = Val 0 \<rparr>)
                  (filter (\<lambda>t. isBefore_date (moment parse (studentEndDate t))
                                  (moment parse (Some currentDate)) \<and> \<not> has_result rs t)
                     courseTasks))"
proof -
  have "filterE (\<lambda>t. if isBefore_date (moment parse (studentEndDate t))
                                          (moment parse (Some currentDate))
                         then (case checkTaskResults (results studentSummary) (task_id t) of
                                 Inl e \<Rightarrow> Inl e
                               | Inr r \<Rightarrow> Inr (\<not> truthy r))
                         else Inr False) courseTasks
        = Inr (filter (\<lambda>t. isBefore_date (moment parse (studentEndDate t))
                                  (moment parse (Some currentDate)) \<and> \<not> has_result rs t)
                     courseTasks)"
    by (rule filterE_total) (simp add: assms checkTaskResults_def truthy_find)
  then show ?thesis by (simp add: tasksNotDone_def)
qed

lemma tasksFuture_results:
  assumes "results studentSummary = Some rs"
  shows "tasksFuture parse currentDate studentSummary courseTasks =
           Inr (map (\<lambda>t. \<lparr> base_task = t, comment = Null, githubPrUri = Null, score = Null \<rparr>)
                  (filter (\<lambda>t. isAfter_date (moment parse (studentEndDate t))
                                  (moment parse (Some currentDate)) \<and> \<not> has_result rs t)
                     courseTasks))"
proof -
  have "filterE (\<lambda>t. if isAfter_date (moment parse (studentEndDate t))
                                          (moment parse (Some currentDate))
                         then (case checkTaskResults (results studentSummary) (task_id t) of
                                 Inl e \<Rightarrow> Inl e
                               | Inr r \<Rightarrow> Inr (\<not> truthy r))
                         else Inr False) courseTasks
        = Inr (filter (\<lambda>t. isAfter_date (moment parse (studentEndDate t))
                                  (moment parse (Some currentDate)) \<and> \<not> has_result rs t)
                     courseTasks)"
    by (rule filterE_total) (simp add: assms checkTaskResults_def truthy_find)
  then show ?thesis by (simp add: tasksFuture_def)
qed

lemma base_task_completed_stat: "base_task (completed_stat tasksDetail t) = t"
  by (simp add: completed_stat_def split: option.splits)

lemma in_bucket_map:
  "(\<And>t. base_task (f t) = t) \<Longrightarrow> in_bucket t (map f (filter P ts)) \<longleftrightarrow> t \<in> set ts \<and> P t"
  by (auto simp: in_bucket_def image_iff) 

lemma startOf_le_endOf: "startOf_day a \<le> endOf_day a"
  by (simp add: endOf_day_def ms_per_day_def)

lemma not_before_and_after: "\<not> (isBefore_date m c \<and> isAfter_date m c)"
  using startOf_le_endOf
  by (cases m; cases c) (auto simp: isBefore_date_def isAfter_date_def dest: less_trans less_le_trans)

lemma same_day_neither:
  "m = None \<or> (\<exists>a c. m = Some a \<and> n = Some c \<and> startOf_day a \<le> c \<and> c \<le> endOf_day a)
     \<Longrightarrow> \<not> isBefore_date m n \<and> \<not> isAfter_date m n"
  by (auto simp: isBefore_date_def isAfter_date_def)

text \<open>
  Claim C1, as stated, on 2024-03-08 with an empty result list: a task whose end date
  is that day and a task with no end date have no result, and appear in neither
  \<^verbatim>\<open>notDone\<close> nor \<^verbatim>\<open>future\<close>.
\<close>

theorem C1_same_day_counterexample:
  "taskStatistics parse_date ''2024 03 08'' (empty_summary\<lparr>results := Some []\<rparr>) []
     [lecture_task, undated_task]
   = Inr \<lparr> completed = [], notDone = [], future = [] \<rparr>"
  by code_simp

text \<open>
  Claim C1, amended: with a result list present the classifier returns its three
  buckets. A task with a matching result appears in \<^verbatim>\<open>completed\<close> and in neither
  other bucket. A task without one does not appear in \<^verbatim>\<open>completed\<close>, appears in
  \<^verbatim>\<open>notDone\<close> exactly when the day of its end date is before the current date, in
  \<^verbatim>\<open>future\<close> exactly when it is after, and never in both; so it appears in neither
  when the end date is absent, invalid or on the current day.
\<close>

theorem C1_partition:
  assumes "results studentSummary = Some rs"
  shows "\<exists>st. taskStatistics parse currentDate studentSummary tasksDetail courseTasks = Inr st \<and>
     (\<forall>t \<in> set courseTasks.
        (has_result rs t \<longrightarrow>
           in_bucket t (completed st) \<and> \<not> in_bucket t (notDone st) \<and> \<not> in_bucket t (future st)) \<and>
        (\<not> has_result rs t \<longrightarrow>
           \<not> in_bucket t (completed st) \<and>
           \<not> (in_bucket t (notDone st) \<and> in_bucket t (future st)) \<and>
           (in_bucket t (notDone st) \<longleftrightarrow>
              isBefore_date (moment parse (studentEndDate t)) (moment parse (Some currentDate))) \<and>
           (in_bucket t (future st) \<longleftrightarrow>
              isAfter_date (moment parse (studentEndDate t)) (moment parse (Some currentDate))) \<and>
           (moment parse (studentEndDate t) = None \<or>
            (\<exists>a c. moment parse (studentEndDate t) = Some a \<and>
                   moment parse (Some currentDate) = Some c \<and>
                   startOf_day a \<le> c \<and> c \<le> endOf_day a)
            \<longrightarrow> \<not> in_bucket t (notDone st) \<and> \<not> in_bucket t (future st))))"
proof -
  let ?c = "map (completed_stat tasksDetail) (filter (has_result rs) courseTasks)"
  let ?n = "map (\<lambda>t. \<lparr> base_task = t, comment = Null, githubPrUri = Null, score = Val 0 \<rparr>)
                  (filter (\<lambda>t. isBefore_date (moment parse (studentEndDate t))
                                  (moment parse (Some currentDate)) \<and> \<not> has_result rs t)
                     courseTasks)"
  let ?f = "map (\<lambda>t. \<lparr> base_task = t, comment = Null, githubPrUri = Null, score = Null \<rparr>)
                  (filter (\<lambda>t. isAfter_date (moment parse (studentEndDate t))
                                  (moment parse (Some currentDate)) \<and> \<not> has_result rs t)
                     courseTasks)"
  let ?st = "\<lparr> completed = ?c, notDone = ?n, future = ?f \<rparr>"
  have eq: "taskStatistics parse currentDate studentSummary tasksDetail courseTasks = Inr ?st"
    by (simp add: taskStatistics_def tasksCompleted_results [OF assms]
        tasksNotDone_results [OF assms] tasksFuture_results [OF assms])
  have c: "in_bucket t ?c \<longleftrightarrow> t \<in> set courseTasks \<and> has_result rs t" for t
    by (rule in_bucket_map) (rule base_task_completed_stat)
  have n: "in_bucket t ?n \<longleftrightarrow> t \<in> set courseTasks \<and>
      (isBefore_date (moment parse (studentEndDate t)) (moment parse (Some currentDate))
       \<and> \<not> has_result rs t)" for t
    by (rule in_bucket_map) simp
  have f: "in_bucket t ?f \<longleftrightarrow> t \<in> set courseTasks \<and>
      (isAfter_date (moment parse (studentEndDate t)) (moment parse (Some currentDate))
       \<and> \<not> has_result rs t)" for t
    by (rule in_bucket_map) simp
  have "\<forall>t \<in> set courseTasks.
        (has_result rs t \<longrightarrow>
           in_bucket t (completed ?st) \<and> \<not> in_bucket t (notDone ?st) \<and> \<not> in_bucket t (future ?st)) \<and>
        (\<not> has_result rs t \<longrightarrow>
           \<not> in_bucket t (completed ?st) \<and>
           \<not> (in_bucket t (notDone ?st) \<and> in_bucket t (future ?st)) \<and>
           (in_bucket t (notDone ?st) \<longleftrightarrow>
              isBefore_date (moment parse (studentEndDate t)) (moment parse (Some currentDate))) \<and>
           (in_bucket t (future ?st) \<longleftrightarrow>
              isAfter_date (moment parse (studentEndDate t)) (moment parse (Some currentDate))) \<and>
           (moment parse (studentEndDate t) = None \<or>
            (\<exists>a c. moment parse (studentEndDate t) = Some a \<and>
                   moment parse (Some currentDate) = Some c \<and>
                   startOf_day a \<le> c \<and> c \<le> endOf_day a)
            \<longrightarrow> \<not> in_bucket t (notDone ?st) \<and> \<not> in_bucket t (future ?st)))"
  proof
    fix t assume t: "t \<in> set courseTasks"
    let ?m = "moment parse (studentEndDate t)"
    let ?d = "moment parse (Some currentDate)"
    have x: "\<not> (isBefore_date ?m ?d \<and> isAfter_date ?m ?d)"
      by (rule not_before_and_after)
    have y: "?m = None \<or> (\<exists>a c. ?m = Some a \<and> ?d = Some c \<and> startOf_day a \<le> c \<and> c \<le> endOf_day a)
       \<longrightarrow> \<not> isBefore_date ?m ?d \<and> \<not> isAfter_date ?m ?d"
      using same_day_neither [of ?m ?d] by blast
    show "(has_result rs t \<longrightarrow>
           in_bucket t (completed ?st) \<and> \<not> in_bucket t (notDone ?st) \<and> \<not> in_bucket t (future ?st)) \<and>
        (\<not> has_result rs t \<longrightarrow>
           \<not> in_bucket t (completed ?st) \<and>
           \<not> (in_bucket t (notDone ?st) \<and> in_bucket t (future ?st)) \<and>
           (in_bucket t (notDone ?st) \<longleftrightarrow> isBefore_date ?m ?d) \<and>
           (in_bucket t (future ?st) \<longleftrightarrow> isAfter_date ?m ?d) \<and>
           (?m = None \<or>
            (\<exists>a c. ?m = Some a \<and> ?d = Some c \<and> startOf_day a \<le> c \<and> c \<le> endOf_day a)
            \<longrightarrow> \<not> in_bucket t (notDone ?st) \<and> \<not> in_bucket t (future ?st)))"
      using t x y by (simp add: c n f)
  qed
  with eq show ?thesis by blast
qed

theorem C1_partition_witness:
  "results sample_summary = Some [\<lparr> courseTaskId = 2, result_score = 80 \<rparr>] \<and>
   (\<exists>st. taskStatistics parse_date ''2024 02 10'' sample_summary sample_details
            [lecture_task, test_task, deadline_task] = Inr st \<and>
         map base_task (completed st) = [test_task] \<and>
         map base_task (notDone st) = [deadline_task] \<and>
         map base_task (future st) = [lecture_task])"
proof -
  have h: "results sample_summary = Some [\<lparr> courseTaskId = 2, result_score = 80 \<rparr>]"
    by (simp add: sample_summary_def)
  have v: "taskStatistics parse_date ''2024 02 10'' sample_summary sample_details
            [lecture_task, test_task, deadline_task]
           = Inr \<lparr> completed = [\<lparr> base_task = test_task, comment = Val ''ok'',
                                   githubPrUri = Null, score = Val 80 \<rparr>],
                   notDone = [\<lparr> base_task = deadline_task, comment = Null,
                                 githubPrUri = Null, score = Val 0 \<rparr>],
                   future = [\<lparr> base_task = lecture_task, comment = Null,
                                githubPrUri = Null, score = Null \<rparr>] \<rparr>"
    by code_simp
  from C1_partition [OF h, of parse_date "''2024 02 10''" sample_details
      "[lecture_task, test_task, deadline_task]"]
  obtain st where "taskStatistics parse_date ''2024 02 10'' sample_summary sample_details
            [lecture_task, test_task, deadline_task] = Inr st" by blast
  with v h show ?thesis by simp
qed

text \<open>
  Claim C6: with a result list present, the \<^verbatim>\<open>completed\<close> bucket is built from
  exactly the tasks that have a result with their id, in task-list order; each entry
  takes comment, PR link and score from the first detail entry with the task's name, and
  has the three fields undefined when there is none.
\<close>

theorem C6_completed:
  assumes "results studentSummary = Some rs"
  shows "\<exists>ts. tasksCompleted studentSummary tasksDetail courseTasks = Inr ts \<and>
     map base_task ts = filter (has_result rs) courseTasks \<and>
     (\<forall>s \<in> set ts.
        (case find (\<lambda>d. detail_name d = task_name (base_task s)) tasksDetail of
           None \<Rightarrow> comment s = Undefined \<and> githubPrUri s = Undefined \<and> score s = Undefined
         | Some d \<Rightarrow> comment s = nullable (detail_comment d) \<and>
                     githubPrUri s = nullable (taskGithubPrUris d) \<and>
                     score s = nullable (detail_score d)))"
proof -
  let ?ts = "map (completed_stat tasksDetail) (filter (has_result rs) courseTasks)"
  have a: "tasksCompleted studentSummary tasksDetail courseTasks = Inr ?ts"
    by (rule tasksCompleted_results [OF assms])
  have "map base_task ?ts = map (\<lambda>t. t) (filter (has_result rs) courseTasks)"
    unfolding map_map comp_def base_task_completed_stat ..
  then have b: "map base_task ?ts = filter (has_result rs) courseTasks" by simp
  have c: "\<forall>s \<in> set ?ts.
        (case find (\<lambda>d. detail_name d = task_name (base_task s)) tasksDetail of
           None \<Rightarrow> comment s = Undefined \<and> githubPrUri s = Undefined \<and> score s = Undefined
         | Some d \<Rightarrow> comment s = nullable (detail_comment d) \<and>
                     githubPrUri s = nullable (taskGithubPrUris d) \<and>
                     score s = nullable (detail_score d))"
    by (auto simp: completed_stat_def split: option.splits)
  from a b c show ?thesis by blast
qed

theorem C6_completed_witness:
  "results sample_summary = Some [\<lparr> courseTaskId = 2, result_score = 80 \<rparr>] \<and>
   tasksCompleted sample_summary sample_details [lecture_task, test_task, deadline_task]
     = Inr [\<lparr> base_task = test_task, comment = Val ''ok'', githubPrUri = Null,
              score = Val 80 \<rparr>]"
proof -
  have h: "results sample_summary = Some [\<lparr> courseTaskId = 2, result_score = 80 \<rparr>]"
    by (simp add: sample_summary_def)
  have v: "tasksCompleted sample_summary sample_details [lecture_task, test_task, deadline_task]
     = Inr [\<lparr> base_task = test_task, comment = Val ''ok'', githubPrUri = Null,
              score = Val 80 \<rparr>]"
    by code_simp
  from C6_completed [OF h, of sample_details "[lecture_task, test_task, deadline_task]"]
  obtain ts where "tasksCompleted sample_summary sample_details
      [lecture_task, test_task, deadline_task] = Inr ts" by blast
  with v h show ?thesis by simp
qed

text \<open>
  Claim C9, as stated, on the initial summary (no result list) and a one-task list: the
  \<^verbatim>\<open>notDone\<close> bucket of a task due after the current date is evaluated without
  error, since the date test fails and \<^verbatim>\<open>&&\<close> does not call \<open>checkTaskResults\<close>.
\<close>

theorem C9_short_circuit_counterexample:
  "results empty_summary = None \<and>
   tasksNotDone parse_date ''2024 01 01'' empty_summary [lecture_task] = Inr []"
  by code_simp

text \<open>
  Claim C9, amended: \<open>checkTaskResults\<close> on an absent result list is a TypeError.
  The classifier returns its buckets exactly when the task list is empty or the summary
  has a result list. Without a result list, the \<^verbatim>\<open>completed\<close> bucket, and with it
  the classifier, throws on every non-empty task list; the \<^verbatim>\<open>notDone\<close> and
  \<^verbatim>\<open>future\<close> buckets throw exactly when some task passes their date test.
\<close>

theorem C9_missing_results:
  "checkTaskResults None taskId = Inl TypeError \<and>
   ((\<exists>st. taskStatistics parse currentDate studentSummary tasksDetail courseTasks = Inr st)
      \<longleftrightarrow> (courseTasks = [] \<or> results studentSummary \<noteq> None)) \<and>
   (results studentSummary = None \<longrightarrow>
      tasksCompleted studentSummary tasksDetail courseTasks
        = (if courseTasks = [] then Inr [] else Inl TypeError) \<and>
      taskStatistics parse currentDate studentSummary tasksDetail courseTasks
        = (if courseTasks = [] then Inr \<lparr> completed = [], notDone = [], future = [] \<rparr>
           else Inl TypeError) \<and>
      tasksNotDone parse currentDate studentSummary courseTasks
        = (if \<exists>t \<in> set courseTasks.
                isBefore_date (moment parse (studentEndDate t)) (moment parse (Some currentDate))
           then Inl TypeError else Inr []) \<and>
      tasksFuture parse currentDate studentSummary courseTasks
        = (if \<exists>t \<in> set courseTasks.
                isAfter_date (moment parse (studentEndDate t)) (moment parse (Some currentDate))
           then Inl TypeError else Inr []))"
proof (cases "results studentSummary")
  case (Some rs)
  have k: "checkTaskResults None taskId = Inl TypeError"
    by (simp add: checkTaskResults_def)
  have "\<exists>st. taskStatistics parse currentDate studentSummary tasksDetail courseTasks = Inr st"
    by (simp add: taskStatistics_def tasksCompleted_results [OF Some]
        tasksNotDone_results [OF Some] tasksFuture_results [OF Some])
  with Some k show ?thesis by simp
next
  case None
  have k: "checkTaskResults None taskId = Inl TypeError"
    by (simp add: checkTaskResults_def)
  have c: "tasksCompleted studentSummary tasksDetail courseTasks
        = (if courseTasks = [] then Inr [] else Inl TypeError)"
    by (cases courseTasks) (simp_all add: tasksCompleted_def checkTaskResults_def None)
  have "filterE (\<lambda>t. if isBefore_date (moment parse (studentEndDate t))
                                          (moment parse (Some currentDate))
                         then (case checkTaskResults (results studentSummary) (task_id t) of
                                 Inl e \<Rightarrow> Inl e
                               | Inr r \<Rightarrow> Inr (\<not> truthy r))
                         else Inr False) courseTasks
        = (if \<exists>t \<in> set courseTasks.
                isBefore_date (moment parse (studentEndDate t)) (moment parse (Some currentDate))
           then Inl TypeError else Inr [])"
    by (rule filterE_TypeError) (simp add: checkTaskResults_def None)
  then have n: "tasksNotDone parse currentDate studentSummary courseTasks
        = (if \<exists>t \<in> set courseTasks.
                isBefore_date (moment parse (studentEndDate t)) (moment parse (Some currentDate))
           then Inl TypeError else Inr [])"
    by (simp add: tasksNotDone_def)
  have "filterE (\<lambda>t. if isAfter_date (moment parse (studentEndDate t))
                                          (moment parse (Some currentDate))
                         then (case checkTaskResults (results studentSummary) (task_id t) of
                                 Inl e \<Rightarrow> Inl e
                               | Inr r \<Rightarrow> Inr (\<not> truthy r))
                         else Inr False) courseTasks
        = (if \<exists>t \<in> set courseTasks.
                isAfter_date (moment parse (studentEndDate t)) (moment parse (Some currentDate))
           then Inl TypeError else Inr [])"
    by (rule filterE_TypeError) (simp add: checkTaskResults_def None)
  then have f: "tasksFuture parse currentDate studentSummary courseTasks
        = (if \<exists>t \<in> set courseTasks.
                isAfter_date (moment parse (studentEndDate t)) (moment parse (Some currentDate))
           then Inl TypeError else Inr [])"
    by (simp add: tasksFuture_def)
  have s: "taskStatistics parse currentDate studentSummary tasksDetail courseTasks
        = (if courseTasks = [] then Inr \<lparr> completed = [], notDone = [], future = [] \<rparr>
           else Inl TypeError)"
  proof (cases "courseTasks = []")
    case True
    then show ?thesis
      by (simp add: taskStatistics_def tasksCompleted_def tasksNotDone_def tasksFuture_def)
  next
    case False
    then show ?thesis by (simp add: taskStatistics_def c)
  qed
  from s have "(\<exists>st. taskStatistics parse currentDate studentSummary tasksDetail courseTasks = Inr st)
      \<longleftrightarrow> courseTasks = []" by simp
  with None k c n f s show ?thesis by simp
qed

theorem C9_missing_results_witness:
  "results empty_summary = None \<and>
   taskStatistics parse_date ''2024 02 10'' empty_summary [] [lecture_task] = Inl TypeError \<and>
   taskStatistics parse_date ''2024 02 10'' empty_summary [] []
     = Inr \<lparr> completed = [], notDone = [], future = [] \<rparr>"
proof -
  have h: "results empty_summary = None"
    by (simp add: empty_summary_def)
  show ?thesis
    using h C9_missing_results [of 3 parse_date "''2024 02 10''" empty_summary "[]" "[lecture_task]"]
      C9_missing_results [of 3 parse_date "''2024 02 10''" empty_summary "[]" "[]"]
    by simp
qed

section \<open>Remote Data Fetcher: properties\<close>

text \<open>
  Claim C7: when one of the four requests is rejected, the callback sets the loading
  flag, shows the error notification once and clears the flag, and does nothing else: the
  state is the one before, with the flag cleared and the notification added, so from the
  initial state the summary stays the empty object. Whatever the outcome, the callback
  starts by setting the flag and ends by clearing it.
\<close>

theorem C7_failed_batch:
  "(rejected r1 \<or> rejected r2 \<or> rejected r3 \<or> rejected r4 \<longrightarrow>
      fetch_callback localeCompare parse now course_id r1 r2 r3 r4
        = [SetLoading True, MessageError error_text, SetLoading False] \<and>
      run_actions st (fetch_callback localeCompare parse now course_id r1 r2 r3 r4)
        = st\<lparr>st_loading := False, st_messages := st_messages st @ [error_text]\<rparr> \<and>
      length (filter is_MessageError (fetch_callback localeCompare parse now course_id r1 r2 r3 r4)) = 1 \<and>
      st_studentSummary (run_actions (initial_state StringToNumber localStorage)
          (fetch_callback localeCompare parse now course_id r1 r2 r3 r4)) = empty_summary) \<and>
   hd (fetch_callback localeCompare parse now course_id r1 r2 r3 r4) = SetLoading True \<and>
   last (fetch_callback localeCompare parse now course_id r1 r2 r3 r4) = SetLoading False \<and>
   st_loading (run_actions st (fetch_callback localeCompare parse now course_id r1 r2 r3 r4)) = False"
proof -
  have rej: "fetch_callback localeCompare parse now course_id r1 r2 r3 r4
        = [SetLoading True, MessageError error_text, SetLoading False]"
    if "rejected r1 \<or> rejected r2 \<or> rejected r3 \<or> rejected r4"
  proof -
    from that have "\<exists>e. Promise_all r1 r2 r3 r4 = Inl e"
      by (auto simp: rejected_def Promise_all_def split: sum.splits)
    then show ?thesis by (auto simp: fetch_callback_def)
  qed
  have ful: "\<exists>a b c d. fetch_callback localeCompare parse now course_id r1 r2 r3 r4
        = [SetLoading True, SetNextEvent a, SetStudentSummary b, SetCourseTasks c,
           SetTasksDetail d, SetLoading False]"
    if "\<not> (rejected r1 \<or> rejected r2 \<or> rejected r3 \<or> rejected r4)"
    using that
    by (auto simp: rejected_def Promise_all_def fetch_callback_def split: sum.splits)
  show ?thesis
  proof (cases "rejected r1 \<or> rejected r2 \<or> rejected r3 \<or> rejected r4")
    case True
    from rej [OF True] show ?thesis
      by (simp add: run_actions_def is_MessageError_def initial_state_def)
  next
    case False
    from ful [OF False] obtain a b c d where
      "fetch_callback localeCompare parse now course_id r1 r2 r3 r4
        = [SetLoading True, SetNextEvent a, SetStudentSummary b, SetCourseTasks c,
           SetTasksDetail d, SetLoading False]" by blast
    with False show ?thesis by (simp add: run_actions_def)
  qed
qed

theorem C7_failed_batch_witness:
  "rejected (Inl RequestFailed :: error + ProfileInfo) \<and>
   run_actions (initial_state StringToNumber_decimal Map.empty)
     (fetch_callback root_collation parse_date 1705300000000 1 (Inr sample_summary) (Inr [lecture_task])
        (Inl RequestFailed) (Inr sample_events))
     = \<lparr> st_studentSummary = empty_summary, st_courseTasks = [], st_tasksDetail = [],
         st_nextEvents = [], st_countEvents = Finite 1, st_loading = False,
         st_messages = [''An error occurred. Please try later.''] \<rparr>"
proof -
  have h: "rejected (Inl RequestFailed :: error + ProfileInfo)"
    by (simp add: rejected_def)
  have c: "showCountEventsOnStudentsDashboard StringToNumber_decimal Map.empty = Finite 1"
    by (simp add: showCountEventsOnStudentsDashboard_def getItem_def truthy_string_def Number_of_def)
  from h C7_failed_batch [of "Inr sample_summary" "Inr [lecture_task]" "Inl RequestFailed"
        "Inr sample_events" root_collation parse_date 1705300000000 1
        "initial_state StringToNumber_decimal Map.empty" StringToNumber_decimal Map.empty]
  have "run_actions (initial_state StringToNumber_decimal Map.empty)
     (fetch_callback root_collation parse_date 1705300000000 1 (Inr sample_summary) (Inr [lecture_task])
        (Inl RequestFailed) (Inr sample_events))
     = (initial_state StringToNumber_decimal Map.empty)
         \<lparr>st_loading := False,
          st_messages := st_messages (initial_state StringToNumber_decimal Map.empty)
                           @ [error_text]\<rparr>"
    by blast
  then show ?thesis
    using h by (simp add: initial_state_def error_text_def c)
qed

section \<open>Display-count preference: properties\<close>

text \<open>
  Claim C8, as stated, with the empty string stored under the key: the function returns
  1, while the empty string converts to 0.
\<close>

theorem C8_empty_string_counterexample:
  "showCountEventsOnStudentsDashboard StringToNumber_decimal (Map.empty(preference_key \<mapsto> ''''))
     = Finite 1 \<and>
   StringToNumber_decimal '''' = Finite 0"
  by (simp add: showCountEventsOnStudentsDashboard_def getItem_def truthy_string_def
      Number_of_def StringToNumber_decimal_def)

text \<open>
  Claim C8, amended: the function returns 1 when the key is absent or holds the empty
  string, and the stored string converted to a number when it holds a non-empty string.
\<close>

theorem C8_preference:
  "(getItem localStorage preference_key = None \<longrightarrow>
      showCountEventsOnStudentsDashboard StringToNumber localStorage = Finite 1) \<and>
   (getItem localStorage preference_key = Some [] \<longrightarrow>
      showCountEventsOnStudentsDashboard StringToNumber localStorage = Finite 1) \<and>
   (\<forall>s. getItem localStorage preference_key = Some s \<and> s \<noteq> [] \<longrightarrow>
      showCountEventsOnStudentsDashboard StringToNumber localStorage = StringToNumber s)"
  by (simp add: showCountEventsOnStudentsDashboard_def truthy_string_def Number_of_def)

theorem C8_preference_witness:
  "showCountEventsOnStudentsDashboard StringToNumber_decimal Map.empty = Finite 1 \<and>
   showCountEventsOnStudentsDashboard StringToNumber_decimal (Map.empty(preference_key \<mapsto> ''5''))
     = Finite 5"
proof -
  have a: "getItem Map.empty preference_key = None"
    by (simp add: getItem_def)
  have b: "getItem (Map.empty(preference_key \<mapsto> ''5'')) preference_key = Some ''5'' \<and> ''5'' \<noteq> []"
    by (simp add: getItem_def)
  have c: "StringToNumber_decimal ''5'' = Finite 5"
    by code_simp
  show ?thesis
    using a b c C8_preference [of Map.empty StringToNumber_decimal]
      C8_preference [of "Map.empty(preference_key \<mapsto> ''5'')" StringToNumber_decimal]
    by simp
qed

section \<open>Derived events and their tasks\<close>

text \<open>
  Claim C10: every derived event carries the id, name and description URL of its task;
  the two events of a task that is not a test share them, the first having the task's
  type and the second the type \<^verbatim>\<open>deadline\<close>; and the merged list can hold two events
  with the same id, as it does for the single lecture task whatever the comparison the
  sort is given.
\<close>

theorem C10_events_carry_task:
  "(\<forall>e \<in> set (task_events t).
      event_id e = task_id t \<and> event_name (event e) = task_name t \<and>
      event_descriptionUrl (event e) = descriptionUrl t) \<and>
   (\<forall>e \<in> set (tasksToEvents tasks). \<exists>t \<in> set tasks. e \<in> set (task_events t)) \<and>
   (task_type t \<noteq> TaskTypes_test \<longrightarrow>
      (\<exists>e1 e2. tasksToEvents [t] = [e1, e2] \<and> event_id e1 = event_id e2 \<and>
         event_name (event e1) = event_name (event e2) \<and>
         event_descriptionUrl (event e1) = event_descriptionUrl (event e2) \<and>
         event_type (event e1) = task_type t \<and> event_type (event e2) = TaskTypes_deadline)) \<and>
   map event_id (nextEvents localeCompare parse_date 0 [] [lecture_task]) = [3, 3] \<and>
   \<not> distinct (map event_id (nextEvents localeCompare parse_date 0 [] [lecture_task]))"
proof -
  have a: "\<forall>e \<in> set (task_events t).
      event_id e = task_id t \<and> event_name (event e) = task_name t \<and>
      event_descriptionUrl (event e) = descriptionUrl t"
    using task_events_carry by blast
  have b: "\<forall>e \<in> set (tasksToEvents tasks). \<exists>t \<in> set tasks. e \<in> set (task_events t)"
    by (auto simp: tasksToEvents_concat)
  have c: "task_type t \<noteq> TaskTypes_test \<longrightarrow>
      (\<exists>e1 e2. tasksToEvents [t] = [e1, e2] \<and> event_id e1 = event_id e2 \<and>
         event_name (event e1) = event_name (event e2) \<and>
         event_descriptionUrl (event e1) = event_descriptionUrl (event e2) \<and>
         event_type (event e1) = task_type t \<and> event_type (event e2) = TaskTypes_deadline)"
    using task_events_other [of t]
    by (simp add: task_events_def createCourseEventFromTask_def)
  let ?P = "\<lambda>event. isAfter (moment parse_date (Some (dateTime event))) (Some (startOf_day 0))"
  let ?cmp = "\<lambda>a b. localeCompare (dateTime a) (dateTime b)"
  have ids: "map event_id (tasksToEvents [lecture_task]) = [3, 3]"
    by code_simp
  have keep: "list_all ?P (tasksToEvents [lecture_task])"
    by code_simp
  from ids obtain e1 e2 where e: "tasksToEvents [lecture_task] = [e1, e2]"
    and i: "event_id e1 = 3" "event_id e2 = 3"
    by (auto simp: map_eq_Cons_conv)
  from keep e have p: "?P e1" "?P e2"
    by simp_all
  have "Array_sort ?cmp [e1, e2] = [e1, e2] \<or> Array_sort ?cmp [e1, e2] = [e2, e1]"
    by (simp add: Array_sort_def)
  with p have "nextEvents localeCompare parse_date 0 [] [lecture_task] = [e1, e2]
      \<or> nextEvents localeCompare parse_date 0 [] [lecture_task] = [e2, e1]"
    by (auto simp: nextEvents_def e)
  with i have d: "map event_id (nextEvents localeCompare parse_date 0 [] [lecture_task]) = [3, 3]"
    by auto
  from a b c d show ?thesis by simp
qed

theorem C10_events_carry_task_witness:
  "map event_id (tasksToEvents [lecture_task]) = [3, 3] \<and>
   map event_id (nextEvents root_collation parse_date 0 [] [lecture_task]) = [3, 3]"
proof -
  have h: "task_type lecture_task \<noteq> TaskTypes_test"
    by (simp add: lecture_task_def TaskTypes_test_def)
  have i: "task_id lecture_task = 3"
    by (simp add: lecture_task_def)
  from C10_events_carry_task [of lecture_task "[lecture_task]" root_collation] h
  obtain e1 e2 where e: "tasksToEvents [lecture_task] = [e1, e2]" "event_id e1 = event_id e2"
    by blast
  from C10_events_carry_task [of lecture_task "[lecture_task]" root_collation] e(1) i
  have "event_id e1 = 3"
    by (simp add: task_events_def)
  moreover from C10_events_carry_task [of lecture_task "[lecture_task]" root_collation]
  have "map event_id (nextEvents root_collation parse_date 0 [] [lecture_task]) = [3, 3]"
    by blast
  ultimately show ?thesis using e by simp
qed

end
